theory Spec2Isabelle
  imports Main "HOL-Library.AList"
begin

section \<open>JavaScript values\<close>

text \<open>
  The service worker \<^verbatim>\<open>src/sw.js\<close> handles JSON values: request bodies, network payloads,
  and the values kept in the \<^verbatim>\<open>queries\<close> collection of IndexedDB. An object is the list of
  its own properties in enumeration order, with distinct keys (keys that are array
  indices, which JavaScript enumerates first, are not treated apart: GraphQL names and
  composite entity keys are none). Numbers are the integers that a double holds
  exactly (timestamps and durations in milliseconds); no property below depends on a
  fraction.
  The JavaScript value \<^verbatim>\<open>undefined\<close> is \<open>None\<close> of \<open>json option\<close>.
\<close>

datatype json =
    JNull
  | JBool bool
  | JNum int
  | JStr string
  | JArr "json list"
  | JObj "(string \<times> json) list"

text \<open>Every \<^verbatim>\<open>throw\<close> and rejected promise of the source is a value of this type.\<close>

datatype error =
    TypeError
  | ReferenceError
  | SyntaxError
  | GraphQLError
  | StoreError
  | NetworkError
  | NormalizeError
  | MetricsError

text \<open>\<^verbatim>\<open>!v\<close> is \<open>\<not> truthy v\<close>; \<^verbatim>\<open>undefined\<close> is falsy.\<close>

fun truthy :: "json \<Rightarrow> bool" where
  "truthy JNull = False"
| "truthy (JBool b) = b"
| "truthy (JNum n) = (n \<noteq> 0)"
| "truthy (JStr s) = (s \<noteq> [])"
| "truthy (JArr xs) = True"
| "truthy (JObj kvs) = True"

text \<open>
  \<^verbatim>\<open>v.k\<close> for the property names the source reads (\<^verbatim>\<open>query\<close>, \<^verbatim>\<open>variables\<close>, \<^verbatim>\<open>data\<close>,
  \<^verbatim>\<open>lastApiCall\<close>): none of them is a built-in property of a string, number, boolean or
  array, so only an object can have one. Reading a property of \<^verbatim>\<open>null\<close> or \<^verbatim>\<open>undefined\<close>
  throws; the callers below write that case out.
\<close>

fun js_prop :: "json \<Rightarrow> string \<Rightarrow> json option" where
  "js_prop (JObj kvs) k = map_of kvs k"
| "js_prop _ k = None"

subsection \<open>Decimal numerals\<close>

text \<open>
  The decimal digits of an integer, with a minus sign when it is negative; the
  conversions below use them for numbers under \<open>10\<^sup>2\<^sup>1\<close> in magnitude only. \<open>join\<close>
  puts a separator between strings, as \<^verbatim>\<open>Array.prototype.join\<close> does.
\<close>

definition digit_char :: "nat \<Rightarrow> char" where
  "digit_char d = char_of (48 + d)"

fun string_of_nat :: "nat \<Rightarrow> string" where
  "string_of_nat n =
     (if n < 10 then [digit_char n] else string_of_nat (n div 10) @ [digit_char (n mod 10)])"

declare string_of_nat.simps [simp del]

definition string_of_int :: "int \<Rightarrow> string" where
  "string_of_int i = (if i < 0 then CHR ''-'' # string_of_nat (nat (- i)) else string_of_nat (nat i))"

fun join :: "string \<Rightarrow> string list \<Rightarrow> string" where
  "join sep [] = []"
| "join sep [x] = x"
| "join sep (x # y # ys) = x @ sep @ join sep (y # ys)"

section \<open>Settings\<close>

text \<open>
  The module-level object \<^verbatim>\<open>settings\<close>, filled from IndexedDB when the worker is activated
  and only read afterwards. A setting that was never stored is \<^verbatim>\<open>undefined\<close>.
\<close>

record settings =
  gqlEndpoints :: "string list option"
  cacheExpirationLimit :: "int option"
  cacheMethod :: "string option"
  doNotCacheGlobal :: "string list option"
  doNotCacheCustom :: "(string \<times> string list) list option"

section \<open>The GraphQL syntax tree\<close>

text \<open>
  The nodes of the \<^verbatim>\<open>graphql/language\<close> syntax tree that \<^verbatim>\<open>visit\<close> walks and that hold a
  selection set or an operation: a field carries its name and, when it has one, its
  selection set; arguments, directives and variable definitions hold neither and are
  left out. \<^verbatim>\<open>node.operation\<close> is the string \<^verbatim>\<open>query\<close>, \<^verbatim>\<open>mutation\<close> or \<^verbatim>\<open>subscription\<close>.
\<close>

datatype selection =
    Field string "selection list option"
  | FragmentSpread string
  | InlineFragment "selection list"

datatype definition_node =
    OperationDefinition string "selection list"
  | FragmentDefinition string "selection list"
  | TypeSystemDefinition

type_synonym document = "definition_node list"

text \<open>
  The result of \<^verbatim>\<open>normalizeResult\<close>: \<open>denestedObjects\<close> is an array of objects, each holding
  one entity under its composite key; \<open>rootQueryObject\<close> maps the top-level fields of the
  response to references.
\<close>

record normalizedData =
  denestedObjects :: "(string \<times> json) list list"
  rootQueryObject :: json

text \<open>
  The collaborators that \<^verbatim>\<open>sw.js\<close> imports and calls as pure functions are parameters:
  \<^verbatim>\<open>parse\<close> of \<^verbatim>\<open>graphql/language\<close>, the hash \<^verbatim>\<open>ourMD5\<close> of \<^verbatim>\<open>./md5\<close> and
  \<^verbatim>\<open>normalizeResult\<close> of \<^verbatim>\<open>./normalizeResult\<close>, the first and the last of which may
  throw, and two conversions of the language: of a string to a number (\<open>None\<close> is NaN),
  and of a number of magnitude \<open>10\<^sup>2\<^sup>1\<close> or more to a string, which is printed in exponent
  form.
\<close>

record env =
  parse :: "string \<Rightarrow> error + document"
  ourMD5 :: "string \<Rightarrow> string"
  normalizeResult :: "json option \<Rightarrow> error + normalizedData"
  StringToNumber :: "string \<Rightarrow> int option"
  NumberToString :: "int \<Rightarrow> string"

section \<open>Conversions\<close>

text \<open>A number below \<open>10\<^sup>2\<^sup>1\<close> in magnitude is printed in decimal.\<close>

definition number_text :: "env \<Rightarrow> int \<Rightarrow> string" where
  "number_text en n =
     (if \<bar>n\<bar> < 1000000000000000000000 then string_of_int n else NumberToString en n)"

text \<open>The first error of a list of results, in order, or all the values.\<close>

fun all_or_error :: "(error + 'a) list \<Rightarrow> error + 'a list" where
  "all_or_error [] = Inr []"
| "all_or_error (Inl e # rs) = Inl e"
| "all_or_error (Inr x # rs) = (case all_or_error rs of Inl e \<Rightarrow> Inl e | Inr xs \<Rightarrow> Inr (x # xs))"

text \<open>
  ToString, which \<^verbatim>\<open>String.prototype.concat\<close> applies to its argument. \<^verbatim>\<open>null\<close> becomes
  \<^verbatim>\<open>null\<close>. An array becomes the comma-joined conversion of its elements, \<^verbatim>\<open>null\<close>
  elements giving the empty string. An object is converted by calling its \<^verbatim>\<open>toString\<close>
  and then its \<^verbatim>\<open>valueOf\<close>: a plain object inherits the \<^verbatim>\<open>toString\<close> that answers
  \<^verbatim>\<open>[object Object]\<close>; one with an own key \<^verbatim>\<open>toString\<close> holds a JSON value there, which
  cannot be called, the inherited \<^verbatim>\<open>valueOf\<close> answers the object itself, and the
  conversion throws a TypeError.
\<close>

fun js_toString :: "env \<Rightarrow> json \<Rightarrow> error + string" where
  "js_toString en JNull = Inr ''null''"
| "js_toString en (JBool b) = Inr (if b then ''true'' else ''false'')"
| "js_toString en (JNum n) = Inr (number_text en n)"
| "js_toString en (JStr s) = Inr s"
| "js_toString en (JArr xs) =
     (case all_or_error (map (\<lambda>x. if x = JNull then Inr [] else js_toString en x) xs) of
        Inl e \<Rightarrow> Inl e
      | Inr ss \<Rightarrow> Inr (join '','' ss))"
| "js_toString en (JObj kvs) =
     (case map_of kvs ''toString'' of
        None \<Rightarrow> Inr ''[object Object]''
      | Some f \<Rightarrow> Inl TypeError)"

text \<open>\<^verbatim>\<open>undefined\<close> becomes \<^verbatim>\<open>undefined\<close>.\<close>

definition toString_val :: "env \<Rightarrow> json option \<Rightarrow> error + string" where
  "toString_val en v = (case v of None \<Rightarrow> Inr ''undefined'' | Some j \<Rightarrow> js_toString en j)"

text \<open>\<^verbatim>\<open>query.concat(variables)\<close> on a string \<^verbatim>\<open>query\<close>.\<close>

definition js_concat :: "env \<Rightarrow> string \<Rightarrow> json option \<Rightarrow> error + string" where
  "js_concat en query variables =
     (case toString_val en variables of Inl e \<Rightarrow> Inl e | Inr s \<Rightarrow> Inr (query @ s))"

section \<open>Requests, responses and the world\<close>

record urlObject =
  origin :: string
  pathname :: string
  href :: string
  searchParams :: "(string \<times> string) list"

text \<open>
  \<open>json_body\<close> is what \<^verbatim>\<open>request.json()\<close> reads: \<open>None\<close> when the body is not JSON
  text, and the promise rejects.
\<close>

record request =
  url :: urlObject
  req_method :: string
  headers :: "(string \<times> string) list"
  json_body :: "json option"

datatype http_body = NotJson string | JsonText json

datatype http_response = HttpResponse nat http_body

text \<open>
  What the page receives: a response built by the worker
  (\<^verbatim>\<open>new Response(JSON.stringify(data), { status: 200 })\<close>) or the response of \<^verbatim>\<open>fetch(clone)\<close>.
\<close>

datatype response = Response nat string | Fetched http_response

datatype net_request =
    Clone
  | Issued string string "string option"

datatype event =
    DbGet string
  | DbSet string
  | DbSetMany "string list"
  | NetFetch net_request
  | MetricsSave bool string
  | Unhandled error

text \<open>
  The state a request runs in: the \<^verbatim>\<open>queries\<close> collection, the clock read by
  \<^verbatim>\<open>Date.now()\<close>, the outcomes of the network round trips still to come, the keys on which
  a read or a write of the store rejects, whether \<^verbatim>\<open>metrics.save\<close> throws, and the trace of
  what was done. A promise that rejects with nobody awaiting it leaves \<open>Unhandled\<close> in
  the trace.
\<close>

record world =
  queries :: "string \<rightharpoonup> json"
  clock :: int
  network :: "(error + http_response) list"
  get_rejects :: "string \<Rightarrow> bool"
  set_rejects :: "string \<Rightarrow> bool"
  metrics_throws :: bool
  trace :: "event list"

definition emit :: "event \<Rightarrow> world \<Rightarrow> world" where
  "emit e w = w\<lparr>trace := trace w @ [e]\<rparr>"

subsection \<open>The store adapter\<close>

text \<open>
  Modelled from the spec: \<^verbatim>\<open>get\<close>, \<^verbatim>\<open>set\<close> and \<^verbatim>\<open>setMany\<close> of \<^verbatim>\<open>./db\<close>, which is not among the
  sources. The spec gives \<^verbatim>\<open>get(collection, key) -> value | absent\<close>,
  \<^verbatim>\<open>set(collection, key, value) -> ack\<close> and
  \<^verbatim>\<open>setMany(collection, sequence of (key,value)) -> ack\<close> over a key/value store, and a
  \<^verbatim>\<open>StoreError\<close> when a read or write fails. The request path only uses the collection
  \<^verbatim>\<open>queries\<close>, so the collection is not a parameter. An entry of \<^verbatim>\<open>setMany\<close> that is
  \<^verbatim>\<open>undefined\<close> is not a pair, and the call fails with nothing written.
\<close>

definition db_get :: "string \<Rightarrow> world \<Rightarrow> (error + json option) \<times> world" where
  "db_get k w =
     (if get_rejects w k then (Inl StoreError, emit (DbGet k) w)
      else (Inr (queries w k), emit (DbGet k) w))"

definition db_set :: "string \<Rightarrow> json \<Rightarrow> world \<Rightarrow> (error + unit) \<times> world" where
  "db_set k v w =
     (if set_rejects w k then (Inl StoreError, emit (DbSet k) w)
      else (Inr (), emit (DbSet k) (w\<lparr>queries := (queries w)(k \<mapsto> v)\<rparr>)))"

fun put_all :: "(string \<times> json) list \<Rightarrow> (string \<rightharpoonup> json) \<Rightarrow> (string \<rightharpoonup> json)" where
  "put_all [] m = m"
| "put_all ((k, v) # kvs) m = put_all kvs (m(k \<mapsto> v))"

fun entries_opt :: "'a option list \<Rightarrow> 'a list option" where
  "entries_opt [] = Some []"
| "entries_opt (None # xs) = None"
| "entries_opt (Some x # xs) = map_option ((#) x) (entries_opt xs)"

definition db_setMany :: "(string \<times> json) option list \<Rightarrow> world \<Rightarrow> (error + unit) \<times> world" where
  "db_setMany arrayKeyVals w =
     (case entries_opt arrayKeyVals of
        None \<Rightarrow> (Inl TypeError, w)
      | Some kvs \<Rightarrow>
          if list_ex (set_rejects w) (map fst kvs) then (Inl StoreError, emit (DbSetMany (map fst kvs)) w)
          else (Inr (), emit (DbSetMany (map fst kvs)) (w\<lparr>queries := put_all kvs (queries w)\<rparr>)))"

subsection \<open>The network\<close>

text \<open>
  \<^verbatim>\<open>fetch\<close> takes the outcome of the next round trip: a rejection (transport failure) or a
  response. With no outcome left the transport fails.
\<close>

definition net_fetch :: "net_request \<Rightarrow> world \<Rightarrow> (error + http_response) \<times> world" where
  "net_fetch r w =
     (case network w of
        [] \<Rightarrow> (Inl NetworkError, emit (NetFetch r) w)
      | out # outs \<Rightarrow> (out, emit (NetFetch r) (w\<lparr>network := outs\<rparr>)))"

text \<open>\<^verbatim>\<open>response.json()\<close> rejects with a SyntaxError on a body that is not JSON.\<close>

fun response_json :: "http_response \<Rightarrow> error + json" where
  "response_json (HttpResponse st (JsonText j)) = Inr j"
| "response_json (HttpResponse st (NotJson t)) = Inl SyntaxError"


section \<open>JSON.stringify and object spread\<close>

definition hex_char :: "nat \<Rightarrow> char" where
  "hex_char d = (if d < 10 then char_of (48 + d) else char_of (87 + d))"

text \<open>
  The escapes of \<^verbatim>\<open>JSON.stringify\<close>: the quotation mark \<open>0x22\<close>, the backslash \<open>0x5C\<close>, the
  short forms of backspace, tab, line feed, form feed and carriage return, and
  \<^verbatim>\<open>\u00XX\<close> for the other control characters.
\<close>

definition escape_char :: "char \<Rightarrow> string" where
  "escape_char c =
     (if c = CHR 0x22 then [CHR 0x5C, CHR 0x22]
      else if c = CHR 0x5C then [CHR 0x5C, CHR 0x5C]
      else if c = CHR 0x08 then [CHR 0x5C, CHR ''b'']
      else if c = CHR 0x09 then [CHR 0x5C, CHR ''t'']
      else if c = CHR 0x0A then [CHR 0x5C, CHR ''n'']
      else if c = CHR 0x0C then [CHR 0x5C, CHR ''f'']
      else if c = CHR 0x0D then [CHR 0x5C, CHR ''r'']
      else if of_char c < (32::nat)
        then [CHR 0x5C, CHR ''u'', CHR ''0'', CHR ''0'',
              hex_char (of_char c div 16), hex_char (of_char c mod 16)]
      else [c])"

definition quote :: "string \<Rightarrow> string" where
  "quote s = CHR 0x22 # concat (map escape_char s) @ [CHR 0x22]"

fun JSON_stringify :: "env \<Rightarrow> json \<Rightarrow> string" where
  "JSON_stringify en JNull = ''null''"
| "JSON_stringify en (JBool b) = (if b then ''true'' else ''false'')"
| "JSON_stringify en (JNum n) = number_text en n"
| "JSON_stringify en (JStr s) = quote s"
| "JSON_stringify en (JArr xs) = ''['' @ join '','' (map (JSON_stringify en) xs) @ '']''"
| "JSON_stringify en (JObj kvs) =
     ''{'' @ join '','' (map (\<lambda>(k, v). quote k @ '':'' @ JSON_stringify en v) kvs) @ ''}''"

text \<open>
  The own enumerable properties that \<^verbatim>\<open>{...v}\<close> copies: the entries of an object, the
  indexed elements of an array or the indexed characters of a string, none for the other
  values.
\<close>

fun own_entries :: "json \<Rightarrow> (string \<times> json) list" where
  "own_entries (JObj kvs) = kvs"
| "own_entries (JArr xs) = zip (map string_of_nat [0..<length xs]) xs"
| "own_entries (JStr s) = zip (map string_of_nat [0..<length s]) (map (\<lambda>c. JStr [c]) s)"
| "own_entries _ = []"

text \<open>
  Defining a property on the object under construction: a key already there keeps its
  place and takes the new value, a new key goes to the end.
\<close>

definition define_all :: "(string \<times> json) list \<Rightarrow> (string \<times> json) list \<Rightarrow> (string \<times> json) list" where
  "define_all kvs obj = fold (\<lambda>(k, v). AList.update k v) kvs obj"

text \<open>\<^verbatim>\<open>{ ...a, ...b }\<close>\<close>

definition object_spread :: "json \<Rightarrow> json \<Rightarrow> json" where
  "object_spread a b = JObj (define_all (own_entries b) (define_all (own_entries a) []))"


section \<open>The service worker\<close>

text \<open>
  The functions of \<^verbatim>\<open>src/sw.js\<close>, in the order a request meets them. \<^verbatim>\<open>sw_log\<close>,
  \<^verbatim>\<open>sw_error_log\<close> and \<^verbatim>\<open>console.log\<close> only print and are left out. An \<^verbatim>\<open>async\<close> function
  that is awaited is a function on the world returning an error or a value. One that
  is called without \<^verbatim>\<open>await\<close> is run to its end at the point of the call, and its
  rejection, which nobody handles, goes to the trace. In the worker such a call runs
  only up to its first \<^verbatim>\<open>await\<close> at that point and the rest after the response has been
  built, so the trace places its later events earlier than they occur; nothing in the
  request reads the store after such a call, so the store and the response are the same.
\<close>

definition detached :: "(world \<Rightarrow> (error + 'a) \<times> world) \<Rightarrow> world \<Rightarrow> world" where
  "detached f w = (case f w of (Inl e, w') \<Rightarrow> emit (Unhandled e) w' | (Inr x, w') \<Rightarrow> w')"

subsection \<open>getQueryFromUrl, getQueryFromBody\<close>

text \<open>
  \<^verbatim>\<open>searchParams.get\<close> gives \<^verbatim>\<open>null\<close> for a missing parameter. With no query the
  \<^verbatim>\<open>throw\<close> builds its message from \<^verbatim>\<open>url\<close>, a name that is not bound in this function,
  which is itself a ReferenceError.
\<close>

definition getQueryFromUrl :: "urlObject \<Rightarrow> error + json option \<times> json option" where
  "getQueryFromUrl u =
     (let query = map_of (searchParams u) ''query'';
          variables = map_of (searchParams u) ''variables''
      in case query of
           None \<Rightarrow> Inl ReferenceError
         | Some q \<Rightarrow>
             if q = [] then Inl ReferenceError
             else Inr (Some (JStr q), Some (case variables of None \<Rightarrow> JNull | Some v \<Rightarrow> JStr v)))"

text \<open>
  \<^verbatim>\<open>({ query, variables } = await request.json())\<close>: a body that is not JSON rejects,
  destructuring \<^verbatim>\<open>null\<close> throws, and both are logged and thrown again.
\<close>

definition getQueryFromBody :: "request \<Rightarrow> error + json option \<times> json option" where
  "getQueryFromBody req =
     (case json_body req of
        None \<Rightarrow> Inl SyntaxError
      | Some JNull \<Rightarrow> Inl TypeError
      | Some j \<Rightarrow> Inr (js_prop j ''query'', js_prop j ''variables''))"

subsection \<open>checkQueryExists\<close>

text \<open>The \<^verbatim>\<open>catch\<close> logs and falls off the end: the function returns \<^verbatim>\<open>undefined\<close>.\<close>

definition checkQueryExists :: "string \<Rightarrow> world \<Rightarrow> json option \<times> world" where
  "checkQueryExists hashedQuery w =
     (case db_get hashedQuery w of
        (Inl err, w') \<Rightarrow> (None, w')
      | (Inr v, w') \<Rightarrow> (v, w'))"

subsection \<open>checkCachedQueryIsFresh\<close>

text \<open>
  ToNumber, applied by the subtraction to \<^verbatim>\<open>lastApiCall\<close>; \<open>None\<close> is NaN, and a
  comparison with NaN is false. An array is converted through its string. A plain
  object gives NaN; one with an own key \<^verbatim>\<open>toString\<close> cannot be converted and the
  subtraction throws a TypeError.
\<close>

fun toNumber :: "env \<Rightarrow> json option \<Rightarrow> error + int option" where
  "toNumber en None = Inr None"
| "toNumber en (Some JNull) = Inr (Some 0)"
| "toNumber en (Some (JBool b)) = Inr (Some (if b then 1 else 0))"
| "toNumber en (Some (JNum n)) = Inr (Some n)"
| "toNumber en (Some (JStr s)) = Inr (StringToNumber en s)"
| "toNumber en (Some (JArr xs)) =
     (case js_toString en (JArr xs) of
        Inl e \<Rightarrow> Inl e
      | Inr s \<Rightarrow> Inr (StringToNumber en s))"
| "toNumber en (Some (JObj kvs)) =
     (case map_of kvs ''toString'' of
        None \<Rightarrow> Inr None
      | Some f \<Rightarrow> Inl TypeError)"

text \<open>The \<^verbatim>\<open>catch\<close> logs and throws the error again.\<close>

definition checkCachedQueryIsFresh ::
  "env \<Rightarrow> settings \<Rightarrow> world \<Rightarrow> json option \<Rightarrow> error + bool" where
  "checkCachedQueryIsFresh en st w lastApiCall =
     (case cacheExpirationLimit st of
        None \<Rightarrow> Inr True
      | Some limit \<Rightarrow>
          if limit = 0 then Inr True
          else (case toNumber en lastApiCall of
                  Inl err \<Rightarrow> Inl err
                | Inr None \<Rightarrow> Inr False
                | Inr (Some t) \<Rightarrow> Inr (clock w - t < limit)))"

subsection \<open>executeQuery\<close>

text \<open>
  The body is sent only with POST. A rejected \<^verbatim>\<open>fetch\<close> and a rejected
  \<^verbatim>\<open>response.json()\<close> are caught and logged, and the function returns \<^verbatim>\<open>undefined\<close>.
\<close>

definition executeQuery :: "urlObject \<Rightarrow> string \<Rightarrow> string \<Rightarrow> world \<Rightarrow> json option \<times> world" where
  "executeQuery u meth body w =
     (case net_fetch (Issued (href u) meth (if meth = ''POST'' then Some body else None)) w of
        (Inl err, w') \<Rightarrow> (None, w')
      | (Inr resp, w') \<Rightarrow>
          (case response_json resp of
             Inl err \<Rightarrow> (None, w')
           | Inr data \<Rightarrow> (Some data, w')))"

subsection \<open>writeToCache\<close>

definition writeToCache :: "string \<Rightarrow> json option \<Rightarrow> world \<Rightarrow> (error + unit) \<times> world" where
  "writeToCache hashedQuery data w =
     (case data of
        None \<Rightarrow> (Inr (), w)
      | Some d \<Rightarrow>
          if \<not> truthy d then (Inr (), w)
          else db_set hashedQuery (JObj [(''data'', d), (''lastApiCall'', JNum (clock w))]) w)"

subsection \<open>writeToNormalizedCache\<close>

text \<open>\<^verbatim>\<open>Object.entries(e)[0]\<close>, \<^verbatim>\<open>undefined\<close> for an object with no property.\<close>

definition first_entry :: "(string \<times> json) list \<Rightarrow> (string \<times> json) option" where
  "first_entry e = (case e of [] \<Rightarrow> None | kv # rest \<Rightarrow> Some kv)"

definition writeToNormalizedCache :: "normalizedData \<Rightarrow> world \<Rightarrow> (error + unit) \<times> world" where
  "writeToNormalizedCache nd w =
     (let arrayKeyVals = map first_entry (denestedObjects nd) in
      case db_setMany arrayKeyVals w of
        (Inl e, w1) \<Rightarrow> (Inl e, w1)
      | (Inr saveData, w1) \<Rightarrow>
          (case db_get ''ROOT_QUERY'' w1 of
             (Inl e, w2) \<Rightarrow> (Inl e, w2)
           | (Inr rootQuery, w2) \<Rightarrow>
               (case rootQuery of
                  None \<Rightarrow> db_set ''ROOT_QUERY'' (rootQueryObject nd) w2
                | Some r \<Rightarrow>
                    if \<not> truthy r then db_set ''ROOT_QUERY'' (rootQueryObject nd) w2
                    else db_set ''ROOT_QUERY'' (object_spread r (rootQueryObject nd)) w2)))"

subsection \<open>executeAndUpdate\<close>

text \<open>
  \<^verbatim>\<open>writeToCache\<close> and \<^verbatim>\<open>writeToNormalizedCache\<close> are called without \<^verbatim>\<open>await\<close>.
  \<^verbatim>\<open>data.data\<close> throws a TypeError when \<^verbatim>\<open>data\<close> is \<^verbatim>\<open>undefined\<close> or \<^verbatim>\<open>null\<close>.
\<close>

definition executeAndUpdate ::
  "env \<Rightarrow> string \<Rightarrow> urlObject \<Rightarrow> string \<Rightarrow> string \<Rightarrow> world \<Rightarrow> (error + json) \<times> world" where
  "executeAndUpdate en hashedQuery u meth body w =
     (case executeQuery u meth body w of
        (data, w1) \<Rightarrow>
          (let w2 = detached (writeToCache hashedQuery data) w1 in
           case data of
             None \<Rightarrow> (Inl TypeError, w2)
           | Some JNull \<Rightarrow> (Inl TypeError, w2)
           | Some d \<Rightarrow>
               (case normalizeResult en (js_prop d ''data'') of
                  Inl e \<Rightarrow> (Inl e, w2)
                | Inr nd \<Rightarrow> (Inr d, detached (writeToNormalizedCache nd) w2))))"

subsection \<open>metaParseAST\<close>

text \<open>The object \<^verbatim>\<open>{ operationType: '', fields: [] }\<close>; \<open>fields_cst\<close> is its \<^verbatim>\<open>fields\<close>.\<close>

record queryCST =
  operationType :: string
  fields_cst :: "string list"

text \<open>
  The two \<^verbatim>\<open>enter\<close> callbacks handed to \<^verbatim>\<open>visit\<close>. The one for a selection set looks at
  the kind of the parent node; under an operation definition it runs
  \<^verbatim>\<open>selections.forEach\<close> with a callback whose body is commented out, and otherwise does
  nothing.
\<close>

definition enter_OperationDefinition :: "string \<Rightarrow> queryCST \<Rightarrow> queryCST" where
  "enter_OperationDefinition operation c = c\<lparr>operationType := operation\<rparr>"

definition enter_SelectionSet :: "string \<Rightarrow> selection list \<Rightarrow> queryCST \<Rightarrow> queryCST" where
  "enter_SelectionSet parent_kind selections c =
     (if parent_kind = ''OperationDefinition'' then fold (\<lambda>selection c'. c') selections c else c)"

text \<open>\<^verbatim>\<open>visit\<close> walks the tree depth first, in document order, entering each node.\<close>

fun visit_selection :: "selection \<Rightarrow> queryCST \<Rightarrow> queryCST" where
  "visit_selection (Field name None) c = c"
| "visit_selection (Field name (Some ss)) c = fold visit_selection ss (enter_SelectionSet ''Field'' ss c)"
| "visit_selection (FragmentSpread name) c = c"
| "visit_selection (InlineFragment ss) c =
     fold visit_selection ss (enter_SelectionSet ''InlineFragment'' ss c)"

fun visit_definition :: "definition_node \<Rightarrow> queryCST \<Rightarrow> queryCST" where
  "visit_definition (OperationDefinition operation ss) c =
     fold visit_selection ss
       (enter_SelectionSet ''OperationDefinition'' ss (enter_OperationDefinition operation c))"
| "visit_definition (FragmentDefinition name ss) c =
     fold visit_selection ss (enter_SelectionSet ''FragmentDefinition'' ss c)"
| "visit_definition TypeSystemDefinition c = c"

definition visit :: "document \<Rightarrow> queryCST \<Rightarrow> queryCST" where
  "visit queryAST c = fold visit_definition queryAST c"

text \<open>
  \<^verbatim>\<open>parse\<close> throws on text that is not a GraphQL document, and on a \<^verbatim>\<open>query\<close> that is not
  a string. The read of \<^verbatim>\<open>ROOT_QUERY\<close> is awaited with no \<^verbatim>\<open>catch\<close> around it.
\<close>

definition metaParseAST :: "env \<Rightarrow> json option \<Rightarrow> world \<Rightarrow> (error + queryCST) \<times> world" where
  "metaParseAST en query w =
     (let queryCST = \<lparr>operationType = [], fields_cst = []\<rparr> in
      case (case query of Some (JStr q) \<Rightarrow> parse en q | _ \<Rightarrow> Inl TypeError) of
        Inl e \<Rightarrow> (Inl e, w)
      | Inr queryAST \<Rightarrow>
          (case db_get ''ROOT_QUERY'' w of
             (Inl e, w') \<Rightarrow> (Inl e, w')
           | (Inr rootQuery, w') \<Rightarrow> (Inr (visit queryAST queryCST), w')))"

subsection \<open>doNotCacheCheck\<close>

fun inner_loop :: "string \<Rightarrow> string list \<Rightarrow> bool" where
  "inner_loop f [] = False"
| "inner_loop f (d # ds) = (if f = d then True else inner_loop f ds)"

fun outer_loop :: "string list \<Rightarrow> string list \<Rightarrow> bool" where
  "outer_loop [] doNotCache = False"
| "outer_loop (f # fs) doNotCache = (if inner_loop f doNotCache then True else outer_loop fs doNotCache)"

text \<open>
  \<^verbatim>\<open>endpoint in settings.doNotCacheCustom\<close> throws when the setting is \<^verbatim>\<open>undefined\<close>, and
  so does spreading an \<^verbatim>\<open>undefined\<close> \<^verbatim>\<open>doNotCacheGlobal\<close>.
\<close>

definition doNotCacheCheck :: "settings \<Rightarrow> queryCST \<Rightarrow> urlObject \<Rightarrow> error + bool" where
  "doNotCacheCheck st queryCST u =
     (let endpoint = origin u @ pathname u;
          fieldsArray = fields_cst queryCST
      in case doNotCacheCustom st of
           None \<Rightarrow> Inl TypeError
         | Some custom \<Rightarrow>
             (case doNotCacheGlobal st of
                None \<Rightarrow> Inl TypeError
              | Some global \<Rightarrow>
                  (let doNotCache = (case map_of custom endpoint of
                                       Some c \<Rightarrow> c @ global
                                     | None \<Rightarrow> global)
                   in Inr (outer_loop fieldsArray doNotCache))))"


subsection \<open>runCachingLogic\<close>

text \<open>
  The result is \<^verbatim>\<open>{ data, hashedQuery }\<close> together with \<^verbatim>\<open>metrics.isCached\<close>, which the
  function sets on the metrics object of the request.

  In the branch taken when \<^verbatim>\<open>doNotCacheCheck\<close> answers \<^verbatim>\<open>true\<close>, the argument object of
  \<^verbatim>\<open>executeQuery\<close> reads \<^verbatim>\<open>body\<close>, which is declared with \<^verbatim>\<open>let\<close> further down in the
  same function: the read is in the temporal dead zone and throws a ReferenceError,
  inside the \<^verbatim>\<open>try\<close> whose \<^verbatim>\<open>catch\<close> logs and throws it again, before \<^verbatim>\<open>executeQuery\<close> is
  called.

  Once \<^verbatim>\<open>parse\<close> has accepted it, \<^verbatim>\<open>query\<close> is a string. \<^verbatim>\<open>query.concat(variables)\<close> may
  throw, inside the \<^verbatim>\<open>try\<close> whose \<^verbatim>\<open>catch\<close> throws the error again, before the store is
  read; \<^verbatim>\<open>checkCachedQueryIsFresh\<close> is called outside any \<^verbatim>\<open>try\<close>.
\<close>

definition runCachingLogic ::
  "env \<Rightarrow> settings \<Rightarrow> request \<Rightarrow> world \<Rightarrow> (error + json \<times> string \<times> bool) \<times> world" where
  "runCachingLogic en st req w =
     (case (if req_method req = ''GET'' then getQueryFromUrl (url req) else getQueryFromBody req) of
        Inl err \<Rightarrow> (Inl err, w)
      | Inr (query, variables) \<Rightarrow>
          (case metaParseAST en query w of
             (Inl err, w1) \<Rightarrow> (Inl err, w1)
           | (Inr metadata, w1) \<Rightarrow>
               (case (if doNotCacheGlobal st \<noteq> None then doNotCacheCheck st metadata (url req)
                      else Inr False) of
                  Inl err \<Rightarrow> (Inl err, w1)
                | Inr True \<Rightarrow> (Inl ReferenceError, w1)
                | Inr False \<Rightarrow>
                    (case query of
                       Some (JStr q) \<Rightarrow>
                         (case js_concat en q variables of
                            Inl err \<Rightarrow> (Inl err, w1)
                          | Inr text \<Rightarrow>
                              (let hashedQuery = ourMD5 en text;
                                   body = JSON_stringify en
                                     (JObj ((''query'', JStr q) #
                                       (case variables of None \<Rightarrow> [] | Some v \<Rightarrow> [(''variables'', v)])))
                               in case checkQueryExists hashedQuery w1 of
                                    (cachedData, w2) \<Rightarrow>
                                      (let miss =
                                         (case executeAndUpdate en hashedQuery (url req) (req_method req) body w2 of
                                            (Inl err, w3) \<Rightarrow> (Inl err, w3)
                                          | (Inr data, w3) \<Rightarrow> (Inr (data, hashedQuery, False), w3))
                                       in case cachedData of
                                            None \<Rightarrow> miss
                                          | Some c \<Rightarrow>
                                              if \<not> truthy c then miss
                                              else (case checkCachedQueryIsFresh en st w2
                                                           (js_prop c ''lastApiCall'') of
                                                      Inl err \<Rightarrow> (Inl err, w2)
                                                    | Inr False \<Rightarrow> miss
                                                    | Inr True \<Rightarrow>
                                                        (Inr (c, hashedQuery, True),
                                                         if cacheMethod st = Some ''cache-network''
                                                         then detached (executeAndUpdate en hashedQuery
                                                                (url req) (req_method req) body) w2
                                                         else w2)))))
                     | _ \<Rightarrow> (Inl TypeError, w1)))))"

subsection \<open>The fetch listener\<close>

text \<open>
  Modelled from the spec: \<^verbatim>\<open>metrics.save\<close> of \<^verbatim>\<open>./Metrics\<close>, which is not among the
  sources; the spec gives \<^verbatim>\<open>record(isCached, key)\<close>, a sink that may fail.
\<close>

definition metrics_save :: "bool \<Rightarrow> string \<Rightarrow> world \<Rightarrow> (error + unit) \<times> world" where
  "metrics_save isCached hashedQuery w =
     (if metrics_throws w then (Inl MetricsError, w)
      else (Inr (), emit (MetricsSave isCached hashedQuery) w))"

text \<open>\<^verbatim>\<open>return await fetch(clone)\<close> in the \<^verbatim>\<open>catch\<close> of \<^verbatim>\<open>fetchAndGetResponse\<close>.\<close>

definition fetch_clone :: "world \<Rightarrow> (error + response) \<times> world" where
  "fetch_clone w =
     (case net_fetch Clone w of
        (Inl e, w') \<Rightarrow> (Inl e, w')
      | (Inr r, w') \<Rightarrow> (Inr (Fetched r), w'))"

definition fetchAndGetResponse ::
  "env \<Rightarrow> settings \<Rightarrow> request \<Rightarrow> world \<Rightarrow> (error + response) \<times> world" where
  "fetchAndGetResponse en st req w =
     (case runCachingLogic en st req w of
        (Inl err, w1) \<Rightarrow> fetch_clone w1
      | (Inr (data, hashedQuery, isCached), w1) \<Rightarrow>
          (case metrics_save isCached hashedQuery w1 of
             (Inl err, w2) \<Rightarrow> fetch_clone w2
           | (Inr u, w2) \<Rightarrow> (Inr (Response 200 (JSON_stringify en data)), w2)))"

text \<open>
  The listener answers the request itself only for a configured endpoint; \<open>None\<close> is a
  request it leaves to the browser. With \<^verbatim>\<open>gqlEndpoints\<close> unset, \<^verbatim>\<open>indexOf\<close> throws in the
  listener and \<^verbatim>\<open>respondWith\<close> is never reached.
\<close>

definition fetch_listener ::
  "env \<Rightarrow> settings \<Rightarrow> request \<Rightarrow> world \<Rightarrow> ((error + response) \<times> world) option" where
  "fetch_listener en st req w =
     (let endpoint = origin (url req) @ pathname (url req) in
      case gqlEndpoints st of
        None \<Rightarrow> None
      | Some eps \<Rightarrow>
          if endpoint \<in> set eps then Some (fetchAndGetResponse en st req w) else None)"

section \<open>Observing a run\<close>

text \<open>The rejections that nobody handled, in the order they occurred.\<close>

definition unhandled :: "world \<Rightarrow> error list" where
  "unhandled w = List.map_filter (\<lambda>ev. case ev of Unhandled e \<Rightarrow> Some e | _ \<Rightarrow> None) (trace w)"

text \<open>
  Running the worker changes the store, the pending network outcomes and the trace; the
  clock and the failure behaviour of the surroundings stay as they are.
\<close>

definition steady :: "world \<Rightarrow> world \<Rightarrow> bool" where
  "steady w w' =
     (clock w' = clock w \<and> get_rejects w' = get_rejects w \<and> set_rejects w' = set_rejects w
      \<and> metrics_throws w' = metrics_throws w)"

text \<open>The trace of \<open>w'\<close> continues the trace of \<open>w\<close>.\<close>

definition continues :: "world \<Rightarrow> world \<Rightarrow> bool" where
  "continues w w' = (take (length (trace w)) (trace w') = trace w)"

section \<open>A concrete setting\<close>

text \<open>
  One endpoint, a parser that knows three documents, a stand-in for the hash and a
  normalizer that extracts nothing; used to run the worker on concrete requests.
\<close>

definition doc_user :: document where
  "doc_user = [OperationDefinition ''query'' [Field ''user'' (Some [Field ''name'' None])]]"

definition doc_posts :: document where
  "doc_posts = [OperationDefinition ''query''
                  [Field ''user'' (Some [Field ''name'' None]),
                   Field ''posts'' (Some [Field ''id'' None])]]"

definition env0 :: env where
  "env0 = \<lparr> parse = (\<lambda>s. if s = ''{user{name}}'' then Inr doc_user
                         else if s = ''{user{name} posts{id}}'' then Inr doc_posts
                         else Inl GraphQLError),
            ourMD5 = (\<lambda>s. ''#'' @ s),
            normalizeResult = (\<lambda>d. Inr \<lparr> denestedObjects = [], rootQueryObject = JObj [] \<rparr>),
            StringToNumber = (\<lambda>s. None),
            NumberToString = string_of_int \<rparr>"

definition settings0 :: settings where
  "settings0 = \<lparr> gqlEndpoints = Some [''http://h/graphql''],
                 cacheExpirationLimit = None,
                 cacheMethod = Some ''cache-first'',
                 doNotCacheGlobal = None,
                 doNotCacheCustom = None \<rparr>"

definition world0 :: world where
  "world0 = \<lparr> queries = Map.empty, clock = 5000, network = [],
              get_rejects = (\<lambda>k. False), set_rejects = (\<lambda>k. False),
              metrics_throws = False, trace = [] \<rparr>"

definition url0 :: urlObject where
  "url0 = \<lparr> origin = ''http://h'', pathname = ''/graphql'', href = ''http://h/graphql'',
            searchParams = [] \<rparr>"

definition post_request :: "string \<Rightarrow> json option \<Rightarrow> request" where
  "post_request q vars =
     \<lparr> url = url0, req_method = ''POST'', headers = [],
       json_body = Some (JObj ((''query'', JStr q) #
                     (case vars of None \<Rightarrow> [] | Some v \<Rightarrow> [(''variables'', v)]))) \<rparr>"

text \<open>Settings with \<^verbatim>\<open>doNotCacheGlobal = ['posts']\<close> and an empty \<^verbatim>\<open>doNotCacheCustom\<close>.\<close>

definition settings_bypass :: settings where
  "settings_bypass = settings0\<lparr>doNotCacheGlobal := Some [''posts''], doNotCacheCustom := Some []\<rparr>"

text \<open>A network payload, and worlds whose next round trip answers it, fails, or answers HTML.\<close>

definition payload0 :: json where
  "payload0 = JObj [(''data'', JObj [(''user'', JObj [(''name'', JStr ''A'')])])]"

definition world_net :: world where
  "world_net = world0\<lparr>network := [Inr (HttpResponse 200 (JsonText payload0))]\<rparr>"

definition world_down :: world where
  "world_down = world0\<lparr>network := [Inl NetworkError]\<rparr>"

definition world_html :: world where
  "world_html = world0\<lparr>network := [Inr (HttpResponse 200 (NotJson ''<html>''))]\<rparr>"

text \<open>
  A store holding the entity \<^verbatim>\<open>User:1\<close> and a root record, and a normalized response that
  writes \<^verbatim>\<open>User:1\<close> again and maps the field \<^verbatim>\<open>posts\<close>.
\<close>

definition user_old :: json where
  "user_old = JObj [(''name'', JStr ''A''), (''age'', JNum 3)]"

definition user_new :: json where
  "user_new = JObj [(''name'', JStr ''B'')]"

definition world_user :: world where
  "world_user = world0\<lparr>queries := [''User:1'' \<mapsto> user_old,
                                     ''ROOT_QUERY'' \<mapsto> JObj [(''user'', JStr ''User:1'')]]\<rparr>"

definition nd_user :: normalizedData where
  "nd_user = \<lparr> denestedObjects = [[(''User:1'', user_new)]],
               rootQueryObject = JObj [(''posts'', JArr [JStr ''Post:1''])] \<rparr>"

text \<open>
  A store holding the cache record of \<^verbatim>\<open>{user{name}}\<close>; a store whose read of that key
  rejects; a store that rejects every write.
\<close>

definition record0 :: json where
  "record0 = JObj [(''data'', payload0), (''lastApiCall'', JNum 4000)]"

definition world_hit :: world where
  "world_hit = world0\<lparr>queries := [''#{user{name}}undefined'' \<mapsto> record0]\<rparr>"


definition world_readonly :: world where
  "world_readonly = world_net\<lparr>set_rejects := (\<lambda>k. True)\<rparr>"


section \<open>Properties\<close>

subsection \<open>Freshness\<close>

text \<open>
  C5, as stated: fresh when no limit is configured, and otherwise exactly when
  \<open>now - lastFetchedAt < cacheExpirationLimit\<close>. With the limit configured as \<open>0\<close> the
  source's guard \<^verbatim>\<open>if (!cacheExpirationLimit) return true\<close> answers fresh, although
  \<open>5000 - 0 < 0\<close> is false.
\<close>

theorem checkCachedQueryIsFresh_zero_limit_counterexample:
  "checkCachedQueryIsFresh env0 (settings0\<lparr>cacheExpirationLimit := Some 0\<rparr>) world0 (Some (JNum 0))
     = Inr True
   \<and> \<not> (clock world0 - 0 < (0::int))"
  by (simp add: checkCachedQueryIsFresh_def world0_def settings0_def)

text \<open>
  C5, amended: for every timestamp, the check answers fresh when no limit is configured
  or the configured limit is \<open>0\<close>, and otherwise exactly when
  \<open>now - lastFetchedAt < cacheExpirationLimit\<close>; with the limit \<open>1000\<close>, a record fetched at
  \<open>now - 999\<close> is fresh and one fetched at \<open>now - 1001\<close> is stale.
\<close>

theorem checkCachedQueryIsFresh_spec:
  "checkCachedQueryIsFresh en st w (Some (JNum t)) =
     Inr (case cacheExpirationLimit st of
            None \<Rightarrow> True
          | Some limit \<Rightarrow> limit = 0 \<or> clock w - t < limit)
   \<and> checkCachedQueryIsFresh en (st\<lparr>cacheExpirationLimit := Some 1000\<rparr>) w (Some (JNum (clock w - 999)))
       = Inr True
   \<and> checkCachedQueryIsFresh en (st\<lparr>cacheExpirationLimit := Some 1000\<rparr>) w (Some (JNum (clock w - 1001)))
       = Inr False"
  by (auto simp add: checkCachedQueryIsFresh_def split: option.split)

subsection \<open>The classifier\<close>

lemmas fixture_defs =
  env0_def settings0_def world0_def url0_def post_request_def doc_user_def doc_posts_def
  settings_bypass_def payload0_def world_net_def world_down_def world_html_def

lemmas worker_defs =
  runCachingLogic_def fetchAndGetResponse_def fetch_clone_def metrics_save_def
  getQueryFromUrl_def getQueryFromBody_def metaParseAST_def doNotCacheCheck_def
  checkQueryExists_def checkCachedQueryIsFresh_def executeAndUpdate_def executeQuery_def
  writeToCache_def writeToNormalizedCache_def first_entry_def detached_def
  visit_def enter_OperationDefinition_def enter_SelectionSet_def
  db_get_def db_set_def db_setMany_def net_fetch_def emit_def
  js_concat_def toString_val_def object_spread_def define_all_def Let_def

lemma fold_keeps_fields:
  "(\<And>x c. x \<in> set xs \<Longrightarrow> fields_cst (f x c) = fields_cst c) \<Longrightarrow>
   fields_cst (fold f xs c) = fields_cst c"
  by (induction xs arbitrary: c) simp_all

lemma forEach_noop: "fold (\<lambda>selection c'. c') selections c = c"
  by (induction selections) simp_all

lemma enter_SelectionSet_id: "enter_SelectionSet k ss c = c"
  by (simp add: enter_SelectionSet_def forEach_noop)

lemma visit_selection_fields: "fields_cst (visit_selection s c) = fields_cst c"
proof (induction s c rule: visit_selection.induct)
  case (2 name ss c)
  then show ?case by (simp add: enter_SelectionSet_id fold_keeps_fields)
next
  case (4 ss c)
  then show ?case by (simp add: enter_SelectionSet_id fold_keeps_fields)
qed simp_all

lemma visit_definition_fields: "fields_cst (visit_definition d c) = fields_cst c"
  by (cases d)
     (simp_all add: enter_SelectionSet_id enter_OperationDefinition_def fold_keeps_fields
        visit_selection_fields)

lemma visit_fields: "fields_cst (visit queryAST c) = fields_cst c"
  unfolding visit_def by (rule fold_keeps_fields) (rule visit_definition_fields)

text \<open>Whatever the document, the metadata \<^verbatim>\<open>metaParseAST\<close> returns has no field.\<close>

lemma metaParseAST_fields_empty:
  "metaParseAST en query w = (Inr metadata, w') \<Longrightarrow> fields_cst metadata = []"
  by (auto simp: metaParseAST_def db_get_def visit_fields
           split: sum.splits option.splits json.splits if_splits)

text \<open>
  C1: the classifier returns the operation kind and the names of the fields of the
  outermost selection set. On the document \<^verbatim>\<open>{user{name}}\<close>, whose outermost selection set
  holds the one field \<^verbatim>\<open>user\<close>, \<^verbatim>\<open>metaParseAST\<close> returns the kind \<^verbatim>\<open>query\<close> and no field.
\<close>

theorem metaParseAST_drops_top_level_fields:
  "parse env0 ''{user{name}}'' = Inr [OperationDefinition ''query'' [Field ''user'' (Some [Field ''name'' None])]]
   \<and> fst (metaParseAST env0 (Some (JStr ''{user{name}}'')) world0)
       = Inr \<lparr>operationType = ''query'', fields_cst = []\<rparr>"
  by (simp add: worker_defs fixture_defs)

subsection \<open>The cacheability policy\<close>

lemma inner_loop_mem: "inner_loop f ds = (f \<in> set ds)"
  by (induction ds) auto

lemma outer_loop_mem: "outer_loop fs ds = (\<exists>f \<in> set fs. f \<in> set ds)"
  by (induction fs) (auto simp: inner_loop_mem)

text \<open>
  \<^verbatim>\<open>doNotCacheCheck\<close> itself answers \<^verbatim>\<open>true\<close> exactly when a field of the metadata is in the
  global list, joined with the custom list of the endpoint when there is one.
\<close>

lemma doNotCacheCheck_mem:
  "doNotCacheCustom st = Some custom \<Longrightarrow> doNotCacheGlobal st = Some global \<Longrightarrow>
   doNotCacheCheck st md u =
     Inr (\<exists>f \<in> set (fields_cst md).
            f \<in> set global \<union> (case map_of custom (origin u @ pathname u) of
                                  None \<Rightarrow> {} | Some c \<Rightarrow> set c))"
  by (auto simp: doNotCacheCheck_def outer_loop_mem split: option.splits)

text \<open>On the metadata of \<^verbatim>\<open>metaParseAST\<close> it never does.\<close>

lemma doNotCacheCheck_metaParseAST:
  "metaParseAST en query w = (Inr metadata, w') \<Longrightarrow> doNotCacheCheck st metadata u \<noteq> Inr True"
  by (auto simp: doNotCacheCheck_def dest!: metaParseAST_fields_empty split: option.splits)

text \<open>
  C3: an operation with a top-level field in the bypass set goes to the network only,
  with no cache read or write. With \<^verbatim>\<open>doNotCacheGlobal = ['posts']\<close> and the operation
  \<^verbatim>\<open>{user{name} posts{id}}\<close>, the check on the operation's fields would answer \<^verbatim>\<open>true\<close>, yet
  the worker looks the operation up in the store, fetches, and writes the cache record,
  the entities and \<^verbatim>\<open>ROOT_QUERY\<close>.
\<close>

theorem bypass_field_is_cached:
  "doNotCacheCheck settings_bypass \<lparr>operationType = ''query'', fields_cst = [''user'', ''posts'']\<rparr> url0
     = Inr True
   \<and> (case fetchAndGetResponse env0 settings_bypass (post_request ''{user{name} posts{id}}'' None) world_net of
        (r, w') \<Rightarrow>
          r = Inr (Response 200 (JSON_stringify env0 payload0))
          \<and> trace w' =
              [DbGet ''ROOT_QUERY'', DbGet ''#{user{name} posts{id}}undefined'',
               NetFetch (Issued ''http://h/graphql'' ''POST''
                 (Some (JSON_stringify env0 (JObj [(''query'', JStr ''{user{name} posts{id}}'')])))),
               DbSet ''#{user{name} posts{id}}undefined'', DbSetMany [], DbGet ''ROOT_QUERY'',
               DbSet ''ROOT_QUERY'', MetricsSave False ''#{user{name} posts{id}}undefined'']
          \<and> queries w' ''#{user{name} posts{id}}undefined''
              = Some (JObj [(''data'', payload0), (''lastApiCall'', JNum 5000)]))"
  by (simp add: worker_defs fixture_defs)

subsection \<open>The network executor\<close>

lemma executeQuery_transport_failure:
  "network w = Inl e # rest \<Longrightarrow> fst (executeQuery u meth body w) = None"
  by (simp add: executeQuery_def net_fetch_def)

lemma executeQuery_not_json:
  "network w = Inr (HttpResponse s (NotJson t)) # rest \<Longrightarrow> fst (executeQuery u meth body w) = None"
  by (simp add: executeQuery_def net_fetch_def)

text \<open>
  C4: the executor fails on a transport failure or a body that is not JSON, and the
  error is thrown on. In both cases \<^verbatim>\<open>executeQuery\<close> returns \<^verbatim>\<open>undefined\<close> instead; what
  \<^verbatim>\<open>runCachingLogic\<close> then throws is the TypeError of reading \<^verbatim>\<open>data.data\<close>.
\<close>

theorem executeQuery_swallows_failure:
  "fst (executeQuery url0 ''POST'' ''{}'' world_down) = None
   \<and> fst (executeQuery url0 ''POST'' ''{}'' world_html) = None
   \<and> fst (runCachingLogic env0 settings0 (post_request ''{user{name}}'' None) world_down) = Inl TypeError"
  by (simp add: worker_defs fixture_defs)
subsection \<open>The normalized store\<close>

lemma put_all_conv: "put_all kvs m = m ++ map_of (rev kvs)"
proof (induction kvs arbitrary: m)
  case Nil
  show ?case by simp
next
  case (Cons kv kvs)
  obtain k v where kv: "kv = (k, v)" by (cases kv)
  show ?case
    by (rule ext) (simp add: kv Cons.IH map_add_def split: option.split)
qed

lemma entries_opt_map_Some: "entries_opt (map Some kvs) = Some kvs"
  by (induction kvs) simp_all

lemma define_all_conv: "map_of (define_all kvs obj) = map_of obj ++ map_of (rev kvs)"
proof (induction kvs arbitrary: obj)
  case Nil
  show ?case by (simp add: define_all_def)
next
  case (Cons kv kvs)
  obtain k v where kv: "kv = (k, v)" by (cases kv)
  have "map_of (define_all (kv # kvs) obj) = map_of (define_all kvs (AList.update k v obj))"
    by (simp add: define_all_def kv)
  also have "\<dots> = map_of (AList.update k v obj) ++ map_of (rev kvs)"
    by (rule Cons.IH)
  finally show ?case
    by (simp add: kv update_conv' map_add_assoc [symmetric])
qed

lemma map_of_rev_distinct: "distinct (map fst kvs) \<Longrightarrow> map_of (rev kvs) = map_of kvs"
  by (subst map_of_inject_set) (simp_all add: rev_map [symmetric])

lemma object_spread_lookup:
  assumes "distinct (map fst old)" and "distinct (map fst patch)"
  shows "js_prop (object_spread (JObj old) (JObj patch)) f =
           (case map_of patch f of Some v \<Rightarrow> Some v | None \<Rightarrow> map_of old f)"
  using assms
  by (simp add: object_spread_def define_all_conv map_of_rev_distinct map_add_def)

text \<open>
  What a successful \<^verbatim>\<open>writeToNormalizedCache\<close> leaves in the store, for entities
  \<open>kvs\<close> (the first entry of each denested object) and a root record \<open>r\<close> read back after
  \<^verbatim>\<open>setMany\<close>.
\<close>

lemma writeToNormalizedCache_store:
  assumes run: "writeToNormalizedCache nd w = (Inr (), w')"
    and ents: "map first_entry (denestedObjects nd) = map Some kvs"
  shows "queries w' =
           (put_all kvs (queries w))(''ROOT_QUERY'' \<mapsto>
              (case put_all kvs (queries w) ''ROOT_QUERY'' of
                 None \<Rightarrow> rootQueryObject nd
               | Some r \<Rightarrow> if truthy r then object_spread r (rootQueryObject nd)
                           else rootQueryObject nd))"
  using run
  by (auto simp: writeToNormalizedCache_def ents entries_opt_map_Some db_setMany_def db_get_def
        db_set_def emit_def Let_def split: if_splits option.splits)

text \<open>
  C2, as stated: an entity whose key is already in the store is merged field by field,
  fields absent from the new write being kept. With \<^verbatim>\<open>User:1\<close> stored as
  \<^verbatim>\<open>{name: 'A', age: 3}\<close>, writing the entity \<^verbatim>\<open>{name: 'B'}\<close> leaves \<^verbatim>\<open>{name: 'B'}\<close>: the field
  \<^verbatim>\<open>age\<close> is gone.
\<close>

theorem entity_write_drops_absent_field_counterexample:
  "js_prop (the (queries world_user ''User:1'')) ''age'' = Some (JNum 3)
   \<and> fst (writeToNormalizedCache nd_user world_user) = Inr ()
   \<and> queries (snd (writeToNormalizedCache nd_user world_user)) ''User:1''
       = Some (JObj [(''name'', JStr ''B'')])
   \<and> js_prop (the (queries (snd (writeToNormalizedCache nd_user world_user)) ''User:1'')) ''age''
       = None"
  by (simp add: worker_defs fixture_defs world_user_def nd_user_def user_old_def user_new_def)

text \<open>
  C2, amended: every normalized entity of a new response is stored once, under its
  composite key, and replaces whatever was stored under that key: after a successful
  write the key holds exactly the entity of the new write (the last one, when the
  response has the key twice), and a key the response does not write keeps its value.
\<close>

theorem entity_write_replaces:
  assumes "writeToNormalizedCache nd w = (Inr (), w')"
    and "map first_entry (denestedObjects nd) = map Some kvs"
    and "k \<noteq> ''ROOT_QUERY''"
  shows "queries w' k = (case map_of (rev kvs) k of Some v \<Rightarrow> Some v | None \<Rightarrow> queries w k)"
  using writeToNormalizedCache_store [OF assms(1,2)] assms(3)
  by (simp add: put_all_conv map_add_def)

theorem entity_write_replaces_witness:
  "writeToNormalizedCache nd_user world_user
     = (Inr (), snd (writeToNormalizedCache nd_user world_user))
   \<and> map first_entry (denestedObjects nd_user) = map Some [(''User:1'', user_new)]
   \<and> ''User:1'' \<noteq> ''ROOT_QUERY''
   \<and> queries (snd (writeToNormalizedCache nd_user world_user)) ''User:1'' = Some user_new"
proof -
  have run: "writeToNormalizedCache nd_user world_user
               = (Inr (), snd (writeToNormalizedCache nd_user world_user))"
    by (simp add: worker_defs fixture_defs world_user_def nd_user_def)
  have ents: "map first_entry (denestedObjects nd_user) = map Some [(''User:1'', user_new)]"
    by (simp add: nd_user_def first_entry_def)
  have key: "''User:1'' \<noteq> ''ROOT_QUERY''" by simp
  from entity_write_replaces [OF run ents key] run ents key show ?thesis by simp
qed

text \<open>
  C7: a write of \<^verbatim>\<open>ROOT_QUERY\<close> creates the record when there is none and otherwise merges
  the patch into it: a field of the patch takes the patch's value, any other field keeps
  the stored one. (No entity of the response is itself keyed \<^verbatim>\<open>ROOT_QUERY\<close>; objects have
  distinct keys.)
\<close>

theorem root_query_write_is_additive:
  assumes "writeToNormalizedCache nd w = (Inr (), w')"
    and "map first_entry (denestedObjects nd) = map Some kvs"
    and "''ROOT_QUERY'' \<notin> set (map fst kvs)"
    and "rootQueryObject nd = JObj patch"
    and "distinct (map fst patch)"
  shows "(queries w ''ROOT_QUERY'' = None \<longrightarrow> queries w' ''ROOT_QUERY'' = Some (JObj patch))
       \<and> (\<forall>old. queries w ''ROOT_QUERY'' = Some (JObj old) \<and> distinct (map fst old) \<longrightarrow>
            (\<exists>merged. queries w' ''ROOT_QUERY'' = Some (JObj merged)
               \<and> (\<forall>f. map_of merged f =
                        (case map_of patch f of Some v \<Rightarrow> Some v | None \<Rightarrow> map_of old f))))"
proof -
  have "map_of (rev kvs) ''ROOT_QUERY'' = None"
    using assms(3) by (simp add: map_of_eq_None_iff rev_map [symmetric])
  then have same: "put_all kvs (queries w) ''ROOT_QUERY'' = queries w ''ROOT_QUERY''"
    by (simp add: put_all_conv map_add_def)
  note store = writeToNormalizedCache_store [OF assms(1,2)]
  have absent: "queries w ''ROOT_QUERY'' = None \<longrightarrow> queries w' ''ROOT_QUERY'' = Some (JObj patch)"
    by (simp add: store same assms(4))
  have present: "\<exists>merged. queries w' ''ROOT_QUERY'' = Some (JObj merged)
               \<and> (\<forall>f. map_of merged f =
                        (case map_of patch f of Some v \<Rightarrow> Some v | None \<Rightarrow> map_of old f))"
    if old: "queries w ''ROOT_QUERY'' = Some (JObj old)" "distinct (map fst old)" for old
  proof -
    have "queries w' ''ROOT_QUERY'' = Some (object_spread (JObj old) (JObj patch))"
      by (simp add: store same old(1) assms(4))
    moreover have "\<forall>f. js_prop (object_spread (JObj old) (JObj patch)) f =
                     (case map_of patch f of Some v \<Rightarrow> Some v | None \<Rightarrow> map_of old f)"
      using object_spread_lookup [OF old(2) assms(5)] by simp
    ultimately show ?thesis
      by (simp add: object_spread_def)
  qed
  from absent present show ?thesis by blast
qed

theorem root_query_write_is_additive_witness:
  "writeToNormalizedCache nd_user world_user
     = (Inr (), snd (writeToNormalizedCache nd_user world_user))
   \<and> queries world_user ''ROOT_QUERY'' = Some (JObj [(''user'', JStr ''User:1'')])
   \<and> (\<exists>merged. queries (snd (writeToNormalizedCache nd_user world_user)) ''ROOT_QUERY''
                  = Some (JObj merged)
        \<and> map_of merged ''user'' = Some (JStr ''User:1'')
        \<and> map_of merged ''posts'' = Some (JArr [JStr ''Post:1'']))"
proof -
  have run: "writeToNormalizedCache nd_user world_user
               = (Inr (), snd (writeToNormalizedCache nd_user world_user))"
    by (simp add: worker_defs fixture_defs world_user_def nd_user_def)
  have ents: "map first_entry (denestedObjects nd_user) = map Some [(''User:1'', user_new)]"
    by (simp add: nd_user_def first_entry_def)
  have nokey: "''ROOT_QUERY'' \<notin> set (map fst [(''User:1'', user_new)])" by simp
  have patch: "rootQueryObject nd_user = JObj [(''posts'', JArr [JStr ''Post:1''])]"
    by (simp add: nd_user_def)
  have dp: "distinct (map fst [(''posts'', JArr [JStr ''Post:1''])])" by simp
  have old: "queries world_user ''ROOT_QUERY'' = Some (JObj [(''user'', JStr ''User:1'')])"
    by (simp add: world_user_def world0_def)
  have dold: "distinct (map fst [(''user'', JStr ''User:1'')])" by simp
  from root_query_write_is_additive [OF run ents nokey patch dp] old dold
  obtain merged where
    m: "queries (snd (writeToNormalizedCache nd_user world_user)) ''ROOT_QUERY'' = Some (JObj merged)"
    and look: "\<forall>f. map_of merged f =
                 (case map_of [(''posts'', JArr [JStr ''Post:1''])] f of
                    Some v \<Rightarrow> Some v | None \<Rightarrow> map_of [(''user'', JStr ''User:1'')] f)"
    by blast
  have "map_of merged ''user'' = Some (JStr ''User:1'')"
    and "map_of merged ''posts'' = Some (JArr [JStr ''Post:1''])"
    by (simp_all add: look)
  with run old m show ?thesis by blast
qed
subsection \<open>The steps of runCachingLogic\<close>

lemma metaParseAST_world:
  "metaParseAST en query w = (r, w1) \<Longrightarrow>
     queries w1 = queries w \<and> network w1 = network w \<and> clock w1 = clock w
     \<and> get_rejects w1 = get_rejects w \<and> set_rejects w1 = set_rejects w
     \<and> metrics_throws w1 = metrics_throws w
     \<and> (trace w1 = trace w \<or> trace w1 = trace w @ [DbGet ''ROOT_QUERY''])"
  by (auto simp: metaParseAST_def db_get_def emit_def Let_def
           split: sum.splits option.splits json.splits if_splits)





lemma steady_refl [simp]: "steady w w"
  by (simp add: steady_def)

lemma steady_trans: "steady w w1 \<Longrightarrow> steady w1 w2 \<Longrightarrow> steady w w2"
  by (simp add: steady_def)

lemma steady_emit [simp]: "steady w (emit e w1) = steady w w1"
  by (simp add: steady_def emit_def)

lemma db_get_steady: "db_get k w = (r, w') \<Longrightarrow> steady w w'"
  by (auto simp: db_get_def split: if_splits)

lemma db_set_steady: "db_set k v w = (r, w') \<Longrightarrow> steady w w'"
  by (auto simp: db_set_def steady_def emit_def split: if_splits)

lemma db_setMany_steady: "db_setMany kvs w = (r, w') \<Longrightarrow> steady w w'"
  by (auto simp: db_setMany_def steady_def emit_def split: if_splits option.splits)

lemma net_fetch_steady: "net_fetch n w = (r, w') \<Longrightarrow> steady w w'"
  by (auto simp: net_fetch_def steady_def emit_def split: list.splits)

lemma writeToCache_steady: "writeToCache k d w = (r, w') \<Longrightarrow> steady w w'"
  by (auto simp: writeToCache_def dest: db_set_steady split: option.splits if_splits)

lemma writeToNormalizedCache_steady: "writeToNormalizedCache nd w = (r, w') \<Longrightarrow> steady w w'"
  by (auto simp: writeToNormalizedCache_def Let_def
           dest!: db_setMany_steady db_get_steady db_set_steady
           intro: steady_trans
           split: prod.splits sum.splits option.splits if_splits)

lemma steady_step: "steady w1 w2 \<Longrightarrow> steady w w2 = steady w w1"
  by (auto simp: steady_def)

lemma detached_steady:
  "(\<And>r w'. f w = (r, w') \<Longrightarrow> steady w w') \<Longrightarrow> steady w (detached f w)"
  by (cases "f w") (auto simp: detached_def split: sum.splits)

lemma steady_detached_writeToCache [simp]:
  "steady w (detached (writeToCache k d) w1) = steady w w1"
  by (rule steady_step) (rule detached_steady, rule writeToCache_steady)

lemma steady_detached_writeToNormalizedCache [simp]:
  "steady w (detached (writeToNormalizedCache nd) w1) = steady w w1"
  by (rule steady_step) (rule detached_steady, rule writeToNormalizedCache_steady)

lemma executeQuery_steady: "executeQuery u meth body w = (r, w') \<Longrightarrow> steady w w'"
  by (auto simp: executeQuery_def dest!: net_fetch_steady split: prod.splits sum.splits)

lemma executeAndUpdate_steady:
  assumes "executeAndUpdate en k u meth body w = (r, w')"
  shows "steady w w'"
  using assms
  by (auto simp: executeAndUpdate_def Let_def
           dest!: executeQuery_steady
           split: prod.splits option.splits json.splits sum.splits)

lemma steady_detached_executeAndUpdate [simp]:
  "steady w (detached (executeAndUpdate en k u meth body) w1) = steady w w1"
  by (rule steady_step) (rule detached_steady, rule executeAndUpdate_steady)

lemma metaParseAST_steady: "metaParseAST en query w = (r, w1) \<Longrightarrow> steady w w1"
  by (drule metaParseAST_world) (simp add: steady_def)

lemma checkQueryExists_steady: "checkQueryExists k w = (r, w1) \<Longrightarrow> steady w w1"
  by (auto simp: checkQueryExists_def dest!: db_get_steady split: prod.splits sum.splits)

lemma runCachingLogic_steady:
  assumes "runCachingLogic en st req w = (r, w')"
  shows "steady w w'"
  using assms
  by (auto simp add: runCachingLogic_def Let_def
           dest!: metaParseAST_steady checkQueryExists_steady executeAndUpdate_steady
           intro: steady_trans
           split: prod.splits sum.splits option.splits json.splits if_splits bool.splits)
subsection \<open>The trace only grows\<close>


lemma continues_refl [simp]: "continues w w"
  by (simp add: continues_def)


















subsection \<open>The cache key\<close>




subsection \<open>What a hit and a miss return\<close>



lemma checkCachedQueryIsFresh_emit [simp]:
  "checkCachedQueryIsFresh en st (emit e w) x = checkCachedQueryIsFresh en st w x"
  by (simp add: checkCachedQueryIsFresh_def emit_def split: option.split sum.split)

lemma queries_emit [simp]: "queries (emit e w) = queries w"
  by (simp add: emit_def)






subsection \<open>Failing open\<close>

lemma map_filter_snoc:
  "List.map_filter f (xs @ [x]) = List.map_filter f xs @ (case f x of None \<Rightarrow> [] | Some y \<Rightarrow> [y])"
  by (simp add: List.map_filter_def split: option.split)

lemma unhandled_emit:
  "unhandled (emit ev w) = unhandled w @ (case ev of Unhandled e \<Rightarrow> [e] | _ \<Rightarrow> [])"
  by (simp add: unhandled_def emit_def map_filter_snoc split: event.split)

text \<open>
  C6, as stated: any error thrown in the caching pipeline makes the handler answer with
  the pass-through call. With a store that rejects writes, \<^verbatim>\<open>writeToCache\<close> and
  \<^verbatim>\<open>writeToNormalizedCache\<close> both throw a StoreError; they are not awaited, so the handler
  never sees it: it answers from the caching path and makes no pass-through call.
\<close>

theorem unawaited_write_error_counterexample:
  "unhandled (snd (fetchAndGetResponse env0 settings0 (post_request ''{user{name}}'' None) world_readonly))
     = [StoreError, StoreError]
   \<and> fst (fetchAndGetResponse env0 settings0 (post_request ''{user{name}}'' None) world_readonly)
       = Inr (Response 200 (JSON_stringify env0 payload0))
   \<and> NetFetch Clone \<notin> set (trace (snd (fetchAndGetResponse env0 settings0
                                         (post_request ''{user{name}}'' None) world_readonly)))"
  by (simp add: worker_defs fixture_defs world_readonly_def unhandled_def List.map_filter_def)

text \<open>
  C6, amended: for every request to a configured endpoint, if an error comes out of the
  awaited \<^verbatim>\<open>runCachingLogic\<close>, or \<^verbatim>\<open>metrics.save\<close> throws, the handler answers with the
  outcome of \<^verbatim>\<open>fetch(clone)\<close>, the pass-through call of the original request, and touches
  the store no further.
\<close>

theorem handler_fails_open:
  assumes "runCachingLogic en st req w = (r, w1)"
    and "(\<exists>e. r = Inl e) \<or> metrics_throws w"
    and "gqlEndpoints st = Some eps"
    and "origin (url req) @ pathname (url req) \<in> set eps"
  shows "fetch_listener en st req w = Some (fetch_clone w1)
       \<and> fst (fetch_clone w1) =
           (case network w1 of
              [] \<Rightarrow> Inl NetworkError
            | Inl e # rest \<Rightarrow> Inl e
            | Inr resp # rest \<Rightarrow> Inr (Fetched resp))
       \<and> trace (snd (fetch_clone w1)) = trace w1 @ [NetFetch Clone]
       \<and> queries (snd (fetch_clone w1)) = queries w1"
proof -
  have "steady w w1" using assms(1) by (rule runCachingLogic_steady)
  then have m: "metrics_throws w1 = metrics_throws w" by (simp add: steady_def)
  have "fetchAndGetResponse en st req w = fetch_clone w1"
    using assms(2) m
    by (auto simp: fetchAndGetResponse_def assms(1) metrics_save_def split: sum.splits)
  then have "fetch_listener en st req w = Some (fetch_clone w1)"
    by (simp add: fetch_listener_def assms(3,4))
  moreover have "fst (fetch_clone w1) =
           (case network w1 of
              [] \<Rightarrow> Inl NetworkError
            | Inl e # rest \<Rightarrow> Inl e
            | Inr resp # rest \<Rightarrow> Inr (Fetched resp))"
    by (simp add: fetch_clone_def net_fetch_def split: list.splits sum.splits)
  moreover have "trace (snd (fetch_clone w1)) = trace w1 @ [NetFetch Clone]"
    by (simp add: fetch_clone_def net_fetch_def emit_def split: list.splits sum.splits)
  moreover have "queries (snd (fetch_clone w1)) = queries w1"
    by (simp add: fetch_clone_def net_fetch_def emit_def split: list.splits sum.splits)
  ultimately show ?thesis by blast
qed

theorem handler_fails_open_witness:
  "runCachingLogic env0 settings0 (post_request ''{user'' None) world_net = (Inl GraphQLError, world_net)
   \<and> gqlEndpoints settings0 = Some [''http://h/graphql'']
   \<and> fetch_listener env0 settings0 (post_request ''{user'' None) world_net
       = Some (fetch_clone world_net)
   \<and> fst (fetch_clone world_net) = Inr (Fetched (HttpResponse 200 (JsonText payload0)))"
proof -
  let ?req = "post_request ''{user'' None"
  have run: "runCachingLogic env0 settings0 ?req world_net = (Inl GraphQLError, world_net)"
    by (simp add: worker_defs fixture_defs)
  have err: "(\<exists>e. (Inl GraphQLError :: error + json \<times> string \<times> bool) = Inl e) \<or> metrics_throws world_net"
    by simp
  have eps: "gqlEndpoints settings0 = Some [''http://h/graphql'']"
    by (simp add: settings0_def)
  have mem: "origin (url ?req) @ pathname (url ?req) \<in> set [''http://h/graphql'']"
    by (simp add: post_request_def url0_def)
  have out: "fst (fetch_clone world_net) = Inr (Fetched (HttpResponse 200 (JsonText payload0)))"
    by (simp add: fetch_clone_def net_fetch_def world_net_def world0_def)
  from handler_fails_open [OF run err eps mem] run eps out show ?thesis by blast
qed

subsection \<open>A failing lookup\<close>

lemma unhandled_update [simp]:
  "unhandled (w\<lparr>queries := q\<rparr>) = unhandled w"
  "unhandled (w\<lparr>network := n\<rparr>) = unhandled w"
  by (simp_all add: unhandled_def)




lemma net_fetch_unhandled: "net_fetch n w = (r, w') \<Longrightarrow> unhandled w' = unhandled w"
  by (auto simp: net_fetch_def unhandled_emit split: list.splits)

lemma detached_ok:
  "f w = (Inr x, w') \<Longrightarrow> unhandled w' = unhandled w \<Longrightarrow> unhandled (detached f w) = unhandled w"
  by (simp add: detached_def)






end
